theory Spec2Isabelle
  imports Complex_Main
begin

section \<open>The ledger store\<close>

text \<open>
  The server keeps three SQLite tables. A table is modelled as the list of its rows in
  insertion order. A nullable TEXT column is a \<open>string option\<close> (\<open>None\<close> is NULL), a
  column declared NOT NULL is a plain value.

  A REAL column and a JavaScript number hold a binary64 value. A finite binary64 value
  is modelled as the real number it denotes, and an addition of the code as the exact
  sum rounded to the nearest binary64 value (\<open>fl\<close> below). Infinity and NaN are not
  modelled: where the code turns a balance or a total too large for binary64 into
  Infinity, the model goes on with the finite value.

  The request bodies are modelled at their declared shapes: every field is either absent
  (\<open>None\<close>: missing, \<open>undefined\<close> or \<open>null\<close>, all of which are bound as NULL) or a value
  of the field's type (a string, or a number for \<open>amount\<close>). A body whose \<open>amount\<close> is
  a string, or that holds a boolean, an array or an object, is outside the model.
\<close>

record customer =
  c_id :: "string option"
  c_name :: string
  c_phone :: "string option"
  c_balance :: real
  c_type :: "string option"
  c_lastTransactionDate :: "string option"

record transaction =
  t_id :: "string option"
  t_type :: string
  t_amount :: real
  t_date :: string
  t_note :: "string option"
  t_customerId :: "string option"

record reminder =
  r_id :: "string option"
  r_title :: string
  r_date :: string
  r_amount :: "real option"
  r_type :: string
  r_status :: "string option"
  r_customerId :: "string option"

record db =
  customers :: "customer list"
  transactions :: "transaction list"
  reminders :: "reminder list"

definition empty_db :: db where
  "empty_db = \<lparr>customers = [], transactions = [], reminders = []\<rparr>"

record customer_body =
  cb_id :: "string option"
  cb_name :: "string option"
  cb_phone :: "string option"
  cb_type :: "string option"

record transaction_body =
  tb_id :: "string option"
  tb_type :: "string option"
  tb_amount :: "real option"
  tb_date :: "string option"
  tb_note :: "string option"
  tb_customerId :: "string option"

record reminder_body =
  rb_id :: "string option"
  rb_title :: "string option"
  rb_date :: "string option"
  rb_amount :: "real option"
  rb_type :: "string option"
  rb_customerId :: "string option"

text \<open>
  What a statement can throw. The three constraint errors come from the schema
  (\<open>NOT NULL\<close>, \<open>PRIMARY KEY\<close>, \<open>FOREIGN KEY ... REFERENCES customers(id)\<close>);
  \<open>SQLITE_IOERR\<close> stands for a write the storage engine could not complete.
\<close>

datatype sqlite_error =
  SQLITE_CONSTRAINT_NOTNULL
| SQLITE_CONSTRAINT_PRIMARYKEY
| SQLITE_CONSTRAINT_FOREIGNKEY
| SQLITE_IOERR

text \<open>
  Whether a storage failure hits the INSERT, the UPDATE or the COMMIT of one request is
  an input of the model.
\<close>

record faults =
  f_insert :: bool
  f_update :: bool
  f_commit :: bool

definition no_faults :: faults where
  "no_faults = \<lparr>f_insert = False, f_update = False, f_commit = False\<rparr>"

subsection \<open>Numbers\<close>

text \<open>The number of binary digits of a natural number.\<close>

fun bits :: "nat \<Rightarrow> nat" where
  "bits n = (if n = 0 then 0 else Suc (bits (n div 2)))"

text \<open>For \<open>0 < x\<close>, the integer \<open>e\<close> with \<open>2 ^ e \<le> x < 2 ^ (e + 1)\<close>.\<close>

definition ilog2 :: "real \<Rightarrow> int" where
  "ilog2 x = (if 1 \<le> x then int (bits (nat \<lfloor>x\<rfloor>)) - 1
              else - int (bits (nat (\<lceil>1 / x\<rceil> - 1))))"

definition round_half_even :: "real \<Rightarrow> int" where
  "round_half_even x =
     (let n = \<lfloor>x\<rfloor>; r = x - of_int n
      in if r < 1 / 2 then n
         else if 1 / 2 < r then n + 1
         else if even n then n else n + 1)"

text \<open>
  Rounding to binary64, to nearest with ties to even: \<open>x\<close> is scaled so that its integer
  part has 53 binary digits (fewer below \<open>2 ^ -1022\<close>, where the spacing stays
  \<open>2 ^ -1074\<close>), rounded to an integer, and scaled back. A result of magnitude
  \<open>2 ^ 1024\<close> or more stands for an overflow.
\<close>

definition fl :: "real \<Rightarrow> real" where
  "fl x =
     (if x = 0 then 0
      else let e = max (ilog2 \<bar>x\<bar> - 52) (- 1074)
           in sgn x * of_int (round_half_even (\<bar>x\<bar> * 2 powi (- e))) * 2 powi e)"

text \<open>The finite binary64 values.\<close>

definition binary64 :: "real \<Rightarrow> bool" where
  "binary64 x = (fl x = x \<and> \<bar>x\<bar> < 2 ^ 1024)"

subsection \<open>Statements\<close>

text \<open>
  A \<open>TEXT PRIMARY KEY\<close> column of an ordinary SQLite table admits NULL, and NULLs never
  collide: only a non-NULL key that is already stored violates the constraint.
\<close>

definition pk_taken :: "string option \<Rightarrow> string option list \<Rightarrow> bool" where
  "pk_taken k ks = (k \<noteq> None \<and> k \<in> set ks)"

text \<open>
  A foreign key is checked only when the connection enforces foreign keys. The source
  sets no pragma, so this is the default of the SQLite build in use; the model takes it
  as the parameter \<open>fk\<close>. The build that comes with the \<open>better-sqlite3\<close> package
  enforces them (\<open>fk = True\<close>). A NULL child key satisfies the constraint; the empty
  string is a key like any other.
\<close>

definition fk_violated :: "bool \<Rightarrow> string option \<Rightarrow> db \<Rightarrow> bool" where
  "fk_violated fk k s = (fk \<and> k \<noteq> None \<and> k \<notin> set (map c_id (customers s)))"

text \<open>
  \<^verbatim>\<open>INSERT INTO customers (id, name, phone, type, balance) VALUES (?, ?, ?, ?, 0)\<close>
\<close>

definition insert_customer :: "bool \<Rightarrow> customer_body \<Rightarrow> db \<Rightarrow> sqlite_error + db" where
  "insert_customer fail b s =
     (if fail then Inl SQLITE_IOERR
      else case cb_name b of
        None \<Rightarrow> Inl SQLITE_CONSTRAINT_NOTNULL
      | Some n \<Rightarrow>
          if pk_taken (cb_id b) (map c_id (customers s)) then Inl SQLITE_CONSTRAINT_PRIMARYKEY
          else Inr (s\<lparr>customers := customers s @
                 [\<lparr>c_id = cb_id b, c_name = n, c_phone = cb_phone b, c_balance = 0,
                   c_type = cb_type b, c_lastTransactionDate = None\<rparr>]\<rparr>))"

text \<open>
  \<^verbatim>\<open>INSERT INTO transactions (id, type, amount, date, note, customerId) VALUES (?, ?, ?, ?, ?, ?)\<close>
  On success the stored row is returned with the new state: the values bound here are
  the variables the handler goes on to use, and after a successful insert \<open>type\<close>,
  \<open>amount\<close> and \<open>date\<close> are known not to be NULL.
\<close>

definition insert_transaction ::
  "bool \<Rightarrow> bool \<Rightarrow> transaction_body \<Rightarrow> db \<Rightarrow> sqlite_error + (transaction \<times> db)" where
  "insert_transaction fk fail b s =
     (if fail then Inl SQLITE_IOERR
      else case (tb_type b, tb_amount b, tb_date b) of
        (Some ty, Some a, Some d) \<Rightarrow>
          if pk_taken (tb_id b) (map t_id (transactions s)) then Inl SQLITE_CONSTRAINT_PRIMARYKEY
          else if fk_violated fk (tb_customerId b) s then Inl SQLITE_CONSTRAINT_FOREIGNKEY
          else
            let row = \<lparr>t_id = tb_id b, t_type = ty, t_amount = a, t_date = d,
                       t_note = tb_note b, t_customerId = tb_customerId b\<rparr>
            in Inr (row, s\<lparr>transactions := transactions s @ [row]\<rparr>)
      | _ \<Rightarrow> Inl SQLITE_CONSTRAINT_NOTNULL)"

text \<open>
  \<^verbatim>\<open>UPDATE customers SET balance = balance + ?, lastTransactionDate = ? WHERE id = ?\<close>
  Every row whose id equals the bound key is updated; a key that matches no row updates
  nothing and is not an error. The addition is the binary64 one.
\<close>

definition update_customer ::
  "bool \<Rightarrow> real \<Rightarrow> string \<Rightarrow> string \<Rightarrow> db \<Rightarrow> sqlite_error + db" where
  "update_customer fail balanceChange date customerId s =
     (if fail then Inl SQLITE_IOERR
      else Inr (s\<lparr>customers :=
             map (\<lambda>c. if c_id c = Some customerId
                       then c\<lparr>c_balance := fl (c_balance c + balanceChange),
                              c_lastTransactionDate := Some date\<rparr>
                       else c)
                 (customers s)\<rparr>))"

text \<open>
  \<^verbatim>\<open>INSERT INTO reminders (id, title, date, amount, type, customerId) VALUES (?, ?, ?, ?, ?, ?)\<close>
  The statement names no \<open>status\<close> column, so the column default \<open>'UPCOMING'\<close> is stored.
\<close>

definition insert_reminder :: "bool \<Rightarrow> bool \<Rightarrow> reminder_body \<Rightarrow> db \<Rightarrow> sqlite_error + db" where
  "insert_reminder fk fail b s =
     (if fail then Inl SQLITE_IOERR
      else case (rb_title b, rb_date b, rb_type b) of
        (Some ti, Some d, Some ty) \<Rightarrow>
          if pk_taken (rb_id b) (map r_id (reminders s)) then Inl SQLITE_CONSTRAINT_PRIMARYKEY
          else if fk_violated fk (rb_customerId b) s then Inl SQLITE_CONSTRAINT_FOREIGNKEY
          else Inr (s\<lparr>reminders := reminders s @
                 [\<lparr>r_id = rb_id b, r_title = ti, r_date = d, r_amount = rb_amount b,
                   r_type = ty, r_status = Some ''UPCOMING'',
                   r_customerId = rb_customerId b\<rparr>]\<rparr>)
      | _ \<Rightarrow> Inl SQLITE_CONSTRAINT_NOTNULL)"

text \<open>
  \<open>db.transaction(fn)\<close>: run \<open>fn\<close> between BEGIN and COMMIT; when \<open>fn\<close> throws, or the
  COMMIT fails, roll back to the state before and rethrow.
\<close>

definition db_transaction ::
  "bool \<Rightarrow> (db \<Rightarrow> sqlite_error + db) \<Rightarrow> db \<Rightarrow> (sqlite_error + unit) \<times> db" where
  "db_transaction commit_fails fn s =
     (case fn s of
        Inl e \<Rightarrow> (Inl e, s)
      | Inr s' \<Rightarrow> if commit_fails then (Inl SQLITE_IOERR, s) else (Inr (), s'))"

section \<open>The balance accounting engine\<close>

text \<open>
  \<^verbatim>\<open>
  let balanceChange = 0;
  if (type === 'GIVE_CREDIT') balanceChange = amount;
  if (type === 'TAKE_CREDIT') balanceChange = -amount;
  if (type === 'PAYMENT_RECEIVED') balanceChange = -amount;
  if (type === 'PAYMENT_MADE') balanceChange = amount;
  \<close>
\<close>

definition balanceChange :: "string \<Rightarrow> real \<Rightarrow> real" where
  "balanceChange type amount =
     (let bc = 0;
          bc = (if type = ''GIVE_CREDIT'' then amount else bc);
          bc = (if type = ''TAKE_CREDIT'' then - amount else bc);
          bc = (if type = ''PAYMENT_RECEIVED'' then - amount else bc);
          bc = (if type = ''PAYMENT_MADE'' then amount else bc)
      in bc)"

text \<open>\<open>if (customerId)\<close>: NULL, \<open>undefined\<close> and the empty string are falsy.\<close>

definition truthy :: "string option \<Rightarrow> bool" where
  "truthy v = (case v of None \<Rightarrow> False | Some k \<Rightarrow> k \<noteq> [])"

text \<open>The closure \<open>insertTransaction\<close> handed to \<open>db.transaction\<close>.\<close>

definition insertTransaction :: "bool \<Rightarrow> faults \<Rightarrow> transaction_body \<Rightarrow> db \<Rightarrow> sqlite_error + db" where
  "insertTransaction fk io b s =
     (case insert_transaction fk (f_insert io) b s of
        Inl e \<Rightarrow> Inl e
      | Inr (row, s1) \<Rightarrow>
          (case tb_customerId b of
             None \<Rightarrow> Inr s1
           | Some customerId \<Rightarrow>
               if customerId \<noteq> [] then
                 update_customer (f_update io)
                   (balanceChange (t_type row) (t_amount row)) (t_date row) customerId s1
               else Inr s1))"

subsection \<open>Request handlers\<close>

text \<open>
  A handler answers 201, or lets the statement's exception escape (the framework then
  answers with a server error); it returns the outcome and the store afterwards.
\<close>

definition post_customers :: "bool \<Rightarrow> customer_body \<Rightarrow> db \<Rightarrow> (sqlite_error + nat) \<times> db" where
  "post_customers fail b s =
     (case insert_customer fail b s of Inl e \<Rightarrow> (Inl e, s) | Inr s' \<Rightarrow> (Inr 201, s'))"

definition post_transactions ::
  "bool \<Rightarrow> faults \<Rightarrow> transaction_body \<Rightarrow> db \<Rightarrow> (sqlite_error + nat) \<times> db" where
  "post_transactions fk io b s =
     (case db_transaction (f_commit io) (insertTransaction fk io b) s of
        (Inl e, s') \<Rightarrow> (Inl e, s')
      | (Inr _, s') \<Rightarrow> (Inr 201, s'))"

definition post_reminders ::
  "bool \<Rightarrow> bool \<Rightarrow> reminder_body \<Rightarrow> db \<Rightarrow> (sqlite_error + nat) \<times> db" where
  "post_reminders fk fail b s =
     (case insert_reminder fk fail b s of Inl e \<Rightarrow> (Inl e, s) | Inr s' \<Rightarrow> (Inr 201, s'))"

subsection \<open>Summary\<close>

text \<open>
  SQL \<open>SUM\<close> is NULL over no rows; over REAL values it is modelled as the binary64
  running total, taken row by row. (SQLite versions that carry a compensation term next
  to the running total return the same value whenever no addition rounds.)
  \<open>total || 0\<close> turns NULL (and 0) into 0.
\<close>

fun float_sum :: "real \<Rightarrow> real list \<Rightarrow> real" where
  "float_sum acc [] = acc"
| "float_sum acc (x # xs) = float_sum (fl (acc + x)) xs"

definition sql_sum :: "real list \<Rightarrow> real option" where
  "sql_sum xs = (if xs = [] then None else Some (float_sum 0 xs))"

definition or0 :: "real option \<Rightarrow> real" where
  "or0 v = (case v of None \<Rightarrow> 0 | Some x \<Rightarrow> if x = 0 then 0 else x)"

record summary =
  todayExpense :: real
  iGet :: real
  theyGet :: real

text \<open>
  \<open>GET /api/summary\<close>. The date string of the current day is the parameter \<open>today\<close>.
\<close>

definition get_summary :: "string \<Rightarrow> db \<Rightarrow> summary" where
  "get_summary today s =
     (let expenses = sql_sum (map t_amount
            (filter (\<lambda>t. t_type t = ''EXPENSE'' \<and> t_date t = today) (transactions s)));
          iGet = sql_sum (map c_balance (filter (\<lambda>c. c_balance c > 0) (customers s)));
          theyGet = sql_sum (map (\<lambda>c. \<bar>c_balance c\<bar>)
            (filter (\<lambda>c. c_balance c < 0) (customers s)))
      in \<lparr>todayExpense = or0 expenses, iGet = or0 iGet, theyGet = or0 theyGet\<rparr>)"

subsection \<open>Sequences of requests\<close>

datatype request =
  PostCustomer bool customer_body
| PostTransaction faults transaction_body
| PostReminder bool reminder_body

fun handle :: "bool \<Rightarrow> request \<Rightarrow> db \<Rightarrow> (sqlite_error + nat) \<times> db" where
  "handle fk (PostCustomer fail b) s = post_customers fail b s"
| "handle fk (PostTransaction io b) s = post_transactions fk io b s"
| "handle fk (PostReminder fail b) s = post_reminders fk fail b s"

fun run :: "bool \<Rightarrow> request list \<Rightarrow> db \<Rightarrow> db" where
  "run fk [] s = s"
| "run fk (r # rs) s = run fk rs (snd (handle fk r s))"

text \<open>
  The sign-convention table as the specification words it, for comparison with
  \<open>balanceChange\<close>.
\<close>

definition sign_convention_delta :: "string \<Rightarrow> real \<Rightarrow> real" where
  "sign_convention_delta type amount =
     (if type = ''GIVE_CREDIT'' then amount
      else if type = ''TAKE_CREDIT'' then - amount
      else if type = ''PAYMENT_RECEIVED'' then - amount
      else if type = ''PAYMENT_MADE'' then amount
      else if type = ''EXPENSE'' then 0
      else 0)"

text \<open>
  The sum of the table's deltas over the recorded transactions whose \<open>customerId\<close> is
  the key \<open>k\<close>, computed from the transaction log alone.
\<close>

definition ledger_sum :: "string option \<Rightarrow> db \<Rightarrow> real" where
  "ledger_sum k s =
     sum_list (map (\<lambda>t. sign_convention_delta (t_type t) (t_amount t))
       (filter (\<lambda>t. t_customerId t = k) (transactions s)))"

text \<open>
  A running total started at \<open>acc\<close> takes in the values \<open>xs\<close> without rounding: every
  intermediate total is a binary64 value as it stands.
\<close>

fun no_rounding :: "real \<Rightarrow> real list \<Rightarrow> bool" where
  "no_rounding acc [] = True"
| "no_rounding acc (x # xs) = (binary64 (acc + x) \<and> no_rounding (acc + x) xs)"

subsection \<open>Sample data\<close>

definition cust_body :: "string \<Rightarrow> string \<Rightarrow> customer_body" where
  "cust_body i n = \<lparr>cb_id = Some i, cb_name = Some n, cb_phone = None,
     cb_type = Some ''CUSTOMER''\<rparr>"

definition tx_body ::
  "string \<Rightarrow> string \<Rightarrow> real \<Rightarrow> string \<Rightarrow> string option \<Rightarrow> transaction_body" where
  "tx_body i ty a d k = \<lparr>tb_id = Some i, tb_type = Some ty, tb_amount = Some a,
     tb_date = Some d, tb_note = None, tb_customerId = k\<rparr>"

definition stored_tx ::
  "string \<Rightarrow> string \<Rightarrow> real \<Rightarrow> string \<Rightarrow> string option \<Rightarrow> transaction" where
  "stored_tx i ty a d k = \<lparr>t_id = Some i, t_type = ty, t_amount = a, t_date = d,
     t_note = None, t_customerId = k\<rparr>"

definition stored_customer :: "string \<Rightarrow> string \<Rightarrow> real \<Rightarrow> string option \<Rightarrow> customer" where
  "stored_customer i n bal d = \<lparr>c_id = Some i, c_name = n, c_phone = None, c_balance = bal,
     c_type = Some ''CUSTOMER'', c_lastTransactionDate = d\<rparr>"

definition shop :: db where
  "shop = \<lparr>customers = [stored_customer ''c1'' ''Alice'' 0 None], transactions = [],
     reminders = []\<rparr>"

definition big_ledger :: "request list" where
  "big_ledger =
     [PostCustomer False (cust_body ''c1'' ''Alice''),
      PostCustomer False (cust_body ''c2'' ''Bob''),
      PostCustomer False (cust_body ''c3'' ''Carol''),
      PostTransaction no_faults
        (tx_body ''t1'' ''GIVE_CREDIT'' 10000000000000000 ''2024-05-01'' (Some ''c1'')),
      PostTransaction no_faults
        (tx_body ''t2'' ''TAKE_CREDIT'' 10000000000000000 ''2024-05-01'' (Some ''c2'')),
      PostTransaction no_faults
        (tx_body ''t3'' ''GIVE_CREDIT'' 1 ''2024-05-01'' (Some ''c3''))]"

definition nobody_shop :: db where
  "nobody_shop = \<lparr>customers = [stored_customer [] ''Nobody'' 0 None], transactions = [],
     reminders = []\<rparr>"

section \<open>Properties\<close>

subsection \<open>Numbers\<close>

declare bits.simps [simp del]

lemma bits_0 [simp]: "bits 0 = 0"
  by (simp add: bits.simps)

lemma bits_Suc_0 [simp]: "bits (Suc 0) = 1"
  by (simp add: bits.simps)

lemma bits_One [simp]: "bits (numeral Num.One) = 1"
  by (simp add: bits.simps)

lemma bits_Bit0 [simp]: "bits (numeral (Num.Bit0 n)) = Suc (bits (numeral n))"
  by (subst bits.simps) simp

lemma bits_Bit1 [simp]: "bits (numeral (Num.Bit1 n)) = Suc (bits (numeral n))"
proof -
  have "numeral (Num.Bit1 n) div (2::nat) = numeral n"
    by simp
  then show ?thesis by (subst bits.simps) simp
qed

text \<open>
  \<open>bits\<close> and \<open>ilog2\<close> find the binary exponent, and \<open>fl\<close> moves a number by at most
  half the spacing of the binary64 values around it.
\<close>

lemma bits_bounds: "0 < n \<Longrightarrow> 2 ^ (bits n - 1) \<le> n \<and> n < 2 ^ bits n"
proof (induction n rule: bits.induct)
  case (1 n)
  show ?case
  proof (cases "n div 2 = 0")
    case True
    with 1(2) have "n = 1" by (cases n) auto
    then show ?thesis by simp
  next
    case False
    then have pos: "0 < n div 2" by simp
    from 1(2) have n0: "n \<noteq> 0" by simp
    from 1(1)[OF n0 pos] have ih: "2 ^ (bits (n div 2) - 1) \<le> n div 2" "n div 2 < 2 ^ bits (n div 2)"
      by auto
    have b: "bits n = Suc (bits (n div 2))" using n0 by (subst bits.simps) simp
    have bpos: "0 < bits (n div 2)" using pos by (subst bits.simps) simp
    then obtain k where k: "bits (n div 2) = Suc k" by (cases "bits (n div 2)") auto
    from ih k have "2 * 2 ^ k \<le> 2 * (n div 2)" by simp
    also have "\<dots> \<le> n" by simp
    finally have lo: "2 ^ (bits n - 1) \<le> n" by (simp add: b k)
    from ih(2) have "n div 2 + 1 \<le> 2 ^ bits (n div 2)" by simp
    then have "2 * (n div 2) + 2 \<le> 2 * 2 ^ bits (n div 2)" by simp
    moreover have "n < 2 * (n div 2) + 2" by presburger
    ultimately have hi: "n < 2 ^ bits n" by (simp add: b)
    from lo hi show ?thesis by simp
  qed
qed

lemma round_half_even_error: "\<bar>of_int (round_half_even x) - x\<bar> \<le> 1 / 2"
  unfolding round_half_even_def Let_def
  by (auto simp: abs_le_iff)

lemma ilog2_bounds:
  assumes "0 < x"
  shows "2 powi ilog2 x \<le> x \<and> x < 2 powi (ilog2 x + 1)"
proof (cases "1 \<le> x")
  case True
  define n where "n = nat \<lfloor>x\<rfloor>"
  from True have n: "0 < n" by (simp add: n_def)
  from bits_bounds[OF n] have b: "2 ^ (bits n - 1) \<le> n" "n < 2 ^ bits n" by auto
  have bp: "0 < bits n" using n by (subst bits.simps) simp
  have e: "ilog2 x = int (bits n - 1)" using True bp by (simp add: ilog2_def n_def)
  have nx: "real n \<le> x" "x < real n + 1" using True by (simp_all add: n_def)
  from b(1) have "(2::real) ^ (bits n - 1) \<le> real n"
    by (metis of_nat_le_iff of_nat_numeral of_nat_power)
  with nx have "(2::real) ^ (bits n - 1) \<le> x" by linarith
  then have lo: "2 powi ilog2 x \<le> x" by (simp only: e power_int_of_nat)
  from b(2) have "real n + 1 \<le> 2 ^ bits n"
    by (metis Suc_leI of_nat_Suc of_nat_le_iff of_nat_numeral of_nat_power add.commute)
  with nx have "x < 2 ^ bits n" by linarith
  moreover have "ilog2 x + 1 = int (bits n)" using bp by (simp add: e)
  ultimately have hi: "x < 2 powi (ilog2 x + 1)" by simp
  from lo hi show ?thesis by simp
next
  case False
  define y where "y = 1 / x"
  define n where "n = nat (\<lceil>y\<rceil> - 1)"
  from False assms have y1: "1 < y" by (simp add: y_def)
  then have c2: "2 \<le> \<lceil>y\<rceil>" by linarith
  then have n: "0 < n" by (simp add: n_def)
  have ny: "real n < y" "y \<le> real n + 1" using c2 by (simp_all add: n_def) linarith+
  from bits_bounds[OF n] have b: "2 ^ (bits n - 1) \<le> n" "n < 2 ^ bits n" by auto
  have bp: "0 < bits n" using n by (subst bits.simps) simp
  have e: "ilog2 x = - int (bits n)" using False by (simp add: ilog2_def n_def y_def)
  from b(2) have "real n + 1 \<le> 2 ^ bits n"
    by (metis Suc_leI of_nat_Suc of_nat_le_iff of_nat_numeral of_nat_power add.commute)
  with ny have "y \<le> 2 ^ bits n" by linarith
  then have "1 / 2 ^ bits n \<le> x" using assms
    by (simp add: y_def field_simps)
  then have lo: "2 powi ilog2 x \<le> x"
    by (simp add: e power_int_minus field_simps)
  from b(1) have "(2::real) ^ (bits n - 1) \<le> real n"
    by (metis of_nat_le_iff of_nat_numeral of_nat_power)
  with ny have "2 ^ (bits n - 1) < y" by linarith
  then have "x < 1 / 2 ^ (bits n - 1)" using assms
    by (simp add: y_def field_simps)
  moreover have "ilog2 x + 1 = - int (bits n - 1)" using bp by (simp add: e)
  ultimately have hi: "x < 2 powi (ilog2 x + 1)"
    by (simp add: power_int_minus field_simps)
  from lo hi show ?thesis by simp
qed

lemma fl_error:
  "\<bar>fl x - x\<bar> \<le> 2 powi (max (ilog2 \<bar>x\<bar> - 52) (- 1074)) / 2"
proof (cases "x = 0")
  case True
  then show ?thesis by (simp add: fl_def)
next
  case False
  define e where "e = max (ilog2 \<bar>x\<bar> - 52) (- 1074)"
  define s :: real where "s = 2 powi e"
  define m where "m = round_half_even (\<bar>x\<bar> * 2 powi (- e))"
  have s: "0 < s" by (simp add: s_def)
  have inv: "2 powi (- e) = 1 / s" by (simp add: s_def power_int_minus field_simps)
  have f: "fl x = sgn x * of_int m * s"
    using False by (simp add: fl_def Let_def e_def s_def m_def)
  have "\<bar>of_int m - \<bar>x\<bar> / s\<bar> \<le> 1 / 2"
    using round_half_even_error[of "\<bar>x\<bar> * 2 powi (- e)"] by (simp add: m_def inv)
  then have A: "\<bar>of_int m - \<bar>x\<bar> / s\<bar> * s \<le> s / 2"
    using s by (simp add: field_simps)
  have B: "\<bar>of_int m - \<bar>x\<bar> / s\<bar> * s = \<bar>of_int m * s - \<bar>x\<bar>\<bar>"
  proof -
    have "\<bar>of_int m - \<bar>x\<bar> / s\<bar> * s = \<bar>(of_int m - \<bar>x\<bar> / s) * s\<bar>"
      using s by (simp add: abs_mult)
    also have "(of_int m - \<bar>x\<bar> / s) * s = of_int m * s - \<bar>x\<bar>"
      using s by (simp add: field_simps)
    finally show ?thesis .
  qed
  have C: "\<bar>fl x - x\<bar> = \<bar>of_int m * s - \<bar>x\<bar>\<bar>"
  proof (cases "0 < x")
    case True
    then show ?thesis by (simp add: f)
  next
    case neg: False
    with False have "x < 0" by simp
    then have "fl x - x = - (of_int m * s - \<bar>x\<bar>)" by (simp add: f)
    then show ?thesis by (simp only: abs_minus)
  qed
  from A B C have "\<bar>fl x - x\<bar> \<le> s / 2" by linarith
  then show ?thesis by (simp only: s_def e_def)
qed

text \<open>Whole numbers below \<open>2 ^ 53\<close> in magnitude are binary64 values.\<close>

lemma round_half_even_of_int: "round_half_even (of_int j) = j"
  by (simp add: round_half_even_def)

lemma ilog2_range:
  assumes "1 \<le> x" and "x < 2 ^ 53"
  shows "0 \<le> ilog2 x \<and> ilog2 x \<le> 52"
proof -
  have "0 < nat \<lfloor>x\<rfloor>" using assms(1) by simp
  then have "0 < bits (nat \<lfloor>x\<rfloor>)" by (subst bits.simps) simp
  then have lo: "0 \<le> ilog2 x" using assms(1) by (simp add: ilog2_def)
  from assms(1) have "0 < x" by simp
  from ilog2_bounds[OF this] have "2 powi ilog2 x \<le> x" by simp
  with assms(2) have "(2::real) powi ilog2 x < 2 powi 53" by simp
  then have "ilog2 x < 53"
    by (rule power_int_le_imp_less_exp[rotated]) simp_all
  with lo show ?thesis by simp
qed

lemma fl_of_int:
  assumes "\<bar>n\<bar> < 2 ^ 53"
  shows "fl (of_int n) = of_int n"
proof (cases "n = 0")
  case True
  then show ?thesis by (simp add: fl_def)
next
  case False
  define x :: real where "x = of_int n"
  have ax: "\<bar>x\<bar> = of_int \<bar>n\<bar>" by (simp add: x_def)
  have "1 \<le> \<bar>n\<bar>" using False by simp
  then have x1: "1 \<le> \<bar>x\<bar>" unfolding ax by (metis of_int_1_le_iff)
  have "real_of_int \<bar>n\<bar> < of_int (2 ^ 53)" using assms by (simp only: of_int_less_iff)
  then have x2: "\<bar>x\<bar> < 2 ^ 53" by (simp add: ax)
  define k where "k = ilog2 \<bar>x\<bar>"
  from ilog2_range[OF x1 x2] have k: "0 \<le> k" "k \<le> 52" by (simp_all add: k_def)
  define d where "d = nat (52 - k)"
  have e: "max (ilog2 \<bar>x\<bar> - 52) (- 1074) = - int d" using k by (simp add: d_def k_def)
  have xne: "x \<noteq> 0" using False by (simp add: x_def)
  have scaled: "\<bar>x\<bar> * 2 powi (int d) = of_int (\<bar>n\<bar> * 2 ^ d)"
    by (simp add: ax)
  have "fl x = sgn x * of_int (round_half_even (\<bar>x\<bar> * 2 powi (- (- int d)))) * 2 powi (- int d)"
    using xne by (simp only: fl_def Let_def e if_False)
  then have "fl x = sgn x * of_int (round_half_even (\<bar>x\<bar> * 2 powi (int d))) * 2 powi (- int d)"
    by (simp only: minus_minus)
  also have "\<dots> = sgn x * of_int (\<bar>n\<bar> * 2 ^ d) * 2 powi (- int d)"
    by (simp only: scaled round_half_even_of_int)
  also have "\<dots> = sgn x * \<bar>x\<bar>"
    by (simp add: ax power_int_minus field_simps)
  also have "\<dots> = x" by (simp add: sgn_mult_abs)
  finally show ?thesis by (simp add: x_def)
qed

lemma binary64_of_int: "\<bar>n\<bar> < 2 ^ 53 \<Longrightarrow> binary64 (of_int n)"
proof -
  assume a: "\<bar>n\<bar> < 2 ^ 53"
  then have "real_of_int \<bar>n\<bar> < of_int (2 ^ 53)" by (simp only: of_int_less_iff)
  then have "\<bar>real_of_int n\<bar> < 2 ^ 53" by simp
  also have "(2::real) ^ 53 < 2 ^ 1024" by simp
  finally show ?thesis using a by (simp add: binary64_def fl_of_int)
qed

lemmas fl_defs = fl_def ilog2_def round_half_even_def binary64_def

text \<open>Small integers are binary64 values; 0.1 is not; 0.1 + 0.2 rounds upwards.\<close>

lemma fl_examples:
  "fl 100 = 100"
  "fl (- 5) = - 5"
  "fl (1 / 10) = 3602879701896397 / 36028797018963968"
  "fl (3602879701896397 / 36028797018963968 + 3602879701896397 / 18014398509481984)
     = 5404319552844596 / 18014398509481984"
  "fl (10000000000000000 + 1) = 10000000000000000"
  by (simp_all add: fl_defs Let_def)

subsection \<open>The handlers, case by case\<close>

lemma balanceChange_table: "balanceChange ty a = sign_convention_delta ty a"
  by (simp add: balanceChange_def sign_convention_delta_def Let_def)

lemmas exec_defs = post_transactions_def db_transaction_def insertTransaction_def
  insert_transaction_def update_customer_def post_customers_def insert_customer_def
  post_reminders_def insert_reminder_def pk_taken_def fk_violated_def truthy_def Let_def

lemmas sample_defs = tx_body_def cust_body_def stored_tx_def stored_customer_def shop_def
  nobody_shop_def no_faults_def empty_db_def

lemma post_transactions_Inl: "post_transactions fk io b s = (Inl e, s') \<Longrightarrow> s' = s"
  by (auto simp: post_transactions_def db_transaction_def split: sum.splits if_splits prod.splits)

lemma post_transactions_Inr:
  assumes "post_transactions fk io b s = (Inr n, s')"
  shows "n = 201"
    and "\<exists>ty a d. tb_type b = Some ty \<and> tb_amount b = Some a \<and> tb_date b = Some d \<and>
           s' = s\<lparr>transactions := transactions s @
                   [\<lparr>t_id = tb_id b, t_type = ty, t_amount = a, t_date = d,
                     t_note = tb_note b, t_customerId = tb_customerId b\<rparr>],
                 customers :=
                   (if truthy (tb_customerId b)
                    then map (\<lambda>c. if c_id c = tb_customerId b
                                   then c\<lparr>c_balance := fl (c_balance c + balanceChange ty a),
                                          c_lastTransactionDate := Some d\<rparr>
                                   else c) (customers s)
                    else customers s)\<rparr>"
    and "\<not> pk_taken (tb_id b) (map t_id (transactions s))"
    and "\<not> fk_violated fk (tb_customerId b) s"
    and "\<not> f_insert io" and "\<not> f_commit io" and "truthy (tb_customerId b) \<Longrightarrow> \<not> f_update io"
  using assms
  by (auto simp: post_transactions_def db_transaction_def insertTransaction_def
        insert_transaction_def update_customer_def truthy_def Let_def fk_violated_def
      split: sum.splits if_splits prod.splits option.splits)

lemma post_transactions_absent:
  assumes "tb_type b = None \<or> tb_amount b = None \<or> tb_date b = None"
  shows "post_transactions fk io b s =
           (Inl (if f_insert io then SQLITE_IOERR else SQLITE_CONSTRAINT_NOTNULL), s)"
  using assms
  by (auto simp: post_transactions_def db_transaction_def insertTransaction_def
        insert_transaction_def split: option.splits)

lemma post_transactions_pk:
  assumes "pk_taken (tb_id b) (map t_id (transactions s))"
    and "tb_type b = Some ty" "tb_amount b = Some a" "tb_date b = Some d"
  shows "post_transactions fk io b s =
           (Inl (if f_insert io then SQLITE_IOERR else SQLITE_CONSTRAINT_PRIMARYKEY), s)"
  using assms
  by (auto simp: post_transactions_def db_transaction_def insertTransaction_def
        insert_transaction_def split: option.splits)

lemma post_transactions_fk:
  assumes "fk_violated fk (tb_customerId b) s"
    and "\<not> pk_taken (tb_id b) (map t_id (transactions s))"
    and "tb_type b = Some ty" "tb_amount b = Some a" "tb_date b = Some d"
  shows "post_transactions fk io b s =
           (Inl (if f_insert io then SQLITE_IOERR else SQLITE_CONSTRAINT_FOREIGNKEY), s)"
  using assms
  by (auto simp: post_transactions_def db_transaction_def insertTransaction_def
        insert_transaction_def split: option.splits)

lemma post_customers_Inl: "post_customers fail b s = (Inl e, s') \<Longrightarrow> s' = s"
  by (auto simp: post_customers_def split: sum.splits)

lemma post_customers_Inr:
  assumes "post_customers fail b s = (Inr n, s')"
  shows "n = 201"
    and "\<exists>nm. cb_name b = Some nm \<and>
           s' = s\<lparr>customers := customers s @
                 [\<lparr>c_id = cb_id b, c_name = nm, c_phone = cb_phone b, c_balance = 0,
                   c_type = cb_type b, c_lastTransactionDate = None\<rparr>]\<rparr>"
    and "\<not> pk_taken (cb_id b) (map c_id (customers s))"
  using assms
  by (auto simp: post_customers_def insert_customer_def split: sum.splits if_splits option.splits)

lemma post_reminders_Inl: "post_reminders fk fail b s = (Inl e, s') \<Longrightarrow> s' = s"
  by (auto simp: post_reminders_def split: sum.splits)

lemma post_reminders_Inr:
  assumes "post_reminders fk fail b s = (Inr n, s')"
  shows "n = 201"
    and "\<exists>ti d ty. rb_title b = Some ti \<and> rb_date b = Some d \<and> rb_type b = Some ty \<and>
           s' = s\<lparr>reminders := reminders s @
                 [\<lparr>r_id = rb_id b, r_title = ti, r_date = d, r_amount = rb_amount b,
                   r_type = ty, r_status = Some ''UPCOMING'',
                   r_customerId = rb_customerId b\<rparr>]\<rparr>"
  using assms
  by (auto simp: post_reminders_def insert_reminder_def split: sum.splits if_splits option.splits)

subsection \<open>Sums and reminders\<close>

lemma float_sum_exact: "no_rounding acc xs \<Longrightarrow> float_sum acc xs = acc + sum_list xs"
  by (induction xs arbitrary: acc) (auto simp: binary64_def algebra_simps)

lemma or0_sql_sum_exact: "no_rounding 0 xs \<Longrightarrow> or0 (sql_sum xs) = sum_list xs"
  by (simp add: or0_def sql_sum_def float_sum_exact)

lemma or0_sql_sum_Nil: "or0 (sql_sum []) = 0"
  by (simp add: or0_def sql_sum_def)

text \<open>
  Whole numbers whose absolute values add up to less than \<open>2 ^ 53\<close> are summed without
  rounding, in any order; so are the two totals of the summary when all balances are
  such numbers.
\<close>

lemma no_rounding_whole_numbers:
  "\<bar>a\<bar> + sum_list (map abs ns) < 2 ^ 53 \<Longrightarrow> no_rounding (of_int a) (map of_int ns)"
proof (induction ns arbitrary: a)
  case Nil
  show ?case by simp
next
  case (Cons n ns)
  have "\<bar>a + n\<bar> \<le> \<bar>a\<bar> + \<bar>n\<bar>" by simp
  with Cons.prems have small: "\<bar>a + n\<bar> + sum_list (map abs ns) < 2 ^ 53" by simp
  moreover have "0 \<le> sum_list (map abs ns)" by (rule sum_list_nonneg) auto
  ultimately have "\<bar>a + n\<bar> < 2 ^ 53" by linarith
  then have "binary64 (of_int (a + n))" by (rule binary64_of_int)
  moreover from Cons.IH[OF small] have "no_rounding (of_int (a + n)) (map of_int ns)" .
  ultimately show ?case by simp
qed

lemma binary64_Ints:
  assumes "x \<in> \<int>" and "\<bar>x\<bar> < 2 ^ 53"
  shows "binary64 x"
proof -
  from assms(1) obtain n where x: "x = of_int n" by (auto elim: Ints_cases)
  from assms(2) have "real_of_int \<bar>n\<bar> < of_int (2 ^ 53)" by (simp add: x)
  then have "\<bar>n\<bar> < 2 ^ 53" by (simp only: of_int_less_iff)
  then show ?thesis unfolding x by (rule binary64_of_int)
qed

lemma no_rounding_Ints:
  assumes "\<forall>x \<in> set xs. x \<in> \<int>" and "acc \<in> \<int>"
    and "\<bar>acc\<bar> + sum_list (map abs xs) < 2 ^ 53"
  shows "no_rounding acc xs"
  using assms
proof (induction xs arbitrary: acc)
  case Nil
  show ?case by simp
next
  case (Cons x xs)
  have "\<bar>acc + x\<bar> \<le> \<bar>acc\<bar> + \<bar>x\<bar>" by simp
  with Cons.prems(3) have small: "\<bar>acc + x\<bar> + sum_list (map abs xs) < 2 ^ 53" by simp
  moreover have "0 \<le> sum_list (map abs xs)" by (rule sum_list_nonneg) auto
  ultimately have lt: "\<bar>acc + x\<bar> < 2 ^ 53" by linarith
  from Cons.prems(1,2) have int: "acc + x \<in> \<int>" by simp
  from int lt have "binary64 (acc + x)" by (rule binary64_Ints)
  moreover from Cons.prems(1) have "\<forall>y \<in> set xs. y \<in> \<int>" by simp
  from Cons.IH[OF this int small] have "no_rounding (acc + x) xs" .
  ultimately show ?case by simp
qed

lemma sum_abs_filter_le:
  "sum_list (map (\<lambda>c. \<bar>c_balance c\<bar>) (filter P cs)) \<le> sum_list (map (\<lambda>c. \<bar>c_balance c\<bar>) cs)"
  by (induction cs) auto

lemma whole_balances_sum_exactly:
  assumes "\<forall>c \<in> set (customers s). c_balance c \<in> \<int>"
    and "sum_list (map (\<lambda>c. \<bar>c_balance c\<bar>) (customers s)) < 2 ^ 53"
  shows "no_rounding 0 (map c_balance (filter (\<lambda>c. c_balance c > 0) (customers s)))"
    and "no_rounding 0 (map (\<lambda>c. \<bar>c_balance c\<bar>) (filter (\<lambda>c. c_balance c < 0) (customers s)))"
proof -
  have le: "sum_list (map (\<lambda>c. \<bar>c_balance c\<bar>) (filter P (customers s))) < 2 ^ 53" for P
    using sum_abs_filter_le[of P "customers s"] assms(2) by linarith
  show "no_rounding 0 (map c_balance (filter (\<lambda>c. c_balance c > 0) (customers s)))"
    using assms(1) le[of "\<lambda>c. c_balance c > 0"]
    by (intro no_rounding_Ints) (auto simp: comp_def)
  show "no_rounding 0 (map (\<lambda>c. \<bar>c_balance c\<bar>) (filter (\<lambda>c. c_balance c < 0) (customers s)))"
    using assms(1) le[of "\<lambda>c. c_balance c < 0"]
    by (intro no_rounding_Ints) (auto simp: comp_def)
qed

lemma sum_list_split_sign:
  "sum_list (map c_balance (filter (\<lambda>c. c_balance c > 0) cs))
     - sum_list (map (\<lambda>c. \<bar>c_balance c\<bar>) (filter (\<lambda>c. c_balance c < 0) cs))
   = sum_list (map c_balance cs)"
  by (induction cs) auto

lemma handle_reminders:
  "\<exists>new. reminders (snd (handle fk rq s)) = reminders s @ new
         \<and> (\<forall>r \<in> set new. r_status r = Some ''UPCOMING'')"
proof (cases rq)
  case (PostCustomer fail b)
  show ?thesis
  proof (cases "post_customers fail b s")
    case (Pair r s')
    then have "reminders s' = reminders s"
      using post_customers_Inl[of fail b s _ s'] post_customers_Inr(2)[of fail b s _ s']
      by (cases r) auto
    with PostCustomer Pair show ?thesis by simp
  qed
next
  case (PostTransaction io b)
  show ?thesis
  proof (cases "post_transactions fk io b s")
    case (Pair r s')
    then have "reminders s' = reminders s"
      using post_transactions_Inl[of fk io b s _ s'] post_transactions_Inr(2)[of fk io b s _ s']
      by (cases r) auto
    with PostTransaction Pair show ?thesis by simp
  qed
next
  case (PostReminder fail b)
  show ?thesis
  proof (cases "post_reminders fk fail b s")
    case (Pair r s')
    then have "\<exists>new. reminders s' = reminders s @ new
         \<and> (\<forall>r \<in> set new. r_status r = Some ''UPCOMING'')"
      using post_reminders_Inl[of fk fail b s _ s'] post_reminders_Inr(2)[of fk fail b s _ s']
      by (cases r) auto
    with PostReminder Pair show ?thesis by simp
  qed
qed

lemma run_reminders:
  "\<exists>new. reminders (run fk reqs s) = reminders s @ new
         \<and> (\<forall>r \<in> set new. r_status r = Some ''UPCOMING'')"
proof (induction reqs arbitrary: s)
  case Nil
  show ?case by simp
next
  case (Cons rq rs)
  from handle_reminders[of fk rq s] obtain n1 where
    n1: "reminders (snd (handle fk rq s)) = reminders s @ n1" "\<forall>r \<in> set n1. r_status r = Some ''UPCOMING''"
    by blast
  from Cons.IH[of "snd (handle fk rq s)"] obtain n2 where
    n2: "reminders (run fk rs (snd (handle fk rq s))) = reminders (snd (handle fk rq s)) @ n2"
        "\<forall>r \<in> set n2. r_status r = Some ''UPCOMING''"
    by blast
  from n1 n2 have "reminders (run fk (rq # rs) s) = reminders s @ (n1 @ n2)
      \<and> (\<forall>r \<in> set (n1 @ n2). r_status r = Some ''UPCOMING'')"
    by auto
  then show ?case by blast
qed

section \<open>The empty customer id\<close>

text \<open>
  The handler stores the transaction row with the \<open>customerId\<close> it was given, and the
  foreign key accepts the empty string as a reference to the customer whose id is the
  empty string; but \<open>if (customerId)\<close> takes the empty string for absent and skips the
  UPDATE. The four statements of this section evaluate the handlers on that input.
\<close>

text \<open>
  C1. A GIVE_CREDIT of 100 whose customerId is the empty string is recorded with answer
  201, and the balance of the customer it names stays 0, where the sign-convention table
  gives +100; the same request naming customer \<open>c1\<close> does add 100.
\<close>

theorem empty_customerId_adds_no_delta:
  "fst (post_transactions True no_faults
          (tx_body ''t1'' ''GIVE_CREDIT'' 100 ''2024-05-01'' (Some [])) nobody_shop) = Inr 201
   \<and> map t_customerId (transactions (snd (post_transactions True no_faults
          (tx_body ''t1'' ''GIVE_CREDIT'' 100 ''2024-05-01'' (Some [])) nobody_shop))) = [Some []]
   \<and> map c_id (customers nobody_shop) = [Some []]
   \<and> map c_balance (customers nobody_shop) = [0]
   \<and> map c_balance (customers (snd (post_transactions True no_faults
          (tx_body ''t1'' ''GIVE_CREDIT'' 100 ''2024-05-01'' (Some [])) nobody_shop))) = [0]
   \<and> sign_convention_delta ''GIVE_CREDIT'' 100 = 100
   \<and> map c_balance (customers (snd (post_transactions True no_faults
          (tx_body ''t1'' ''GIVE_CREDIT'' 100 ''2024-05-01'' (Some ''c1'')) shop))) = [100]"
  by (simp add: exec_defs sample_defs balanceChange_def sign_convention_delta_def fl_defs)

text \<open>
  C2. From the empty store, create the customer with the empty id and record a
  GIVE_CREDIT of 100 for it: both requests succeed, the customer's balance is 0, and the
  deltas of the recorded transactions that carry its id sum to 100.
\<close>

theorem empty_id_balance_misses_delta:
  "run True
      [PostCustomer False (cust_body [] ''Nobody''),
       PostTransaction no_faults (tx_body ''t1'' ''GIVE_CREDIT'' 100 ''2024-05-01'' (Some []))]
      empty_db
   = \<lparr>customers = [stored_customer [] ''Nobody'' 0 None],
      transactions = [stored_tx ''t1'' ''GIVE_CREDIT'' 100 ''2024-05-01'' (Some [])],
      reminders = []\<rparr>
   \<and> ledger_sum (Some [])
       \<lparr>customers = [stored_customer [] ''Nobody'' 0 None],
        transactions = [stored_tx ''t1'' ''GIVE_CREDIT'' 100 ''2024-05-01'' (Some [])],
        reminders = []\<rparr> = 100"
  by (simp add: exec_defs sample_defs ledger_sum_def sign_convention_delta_def)

text \<open>
  C3. With no storage failure at all, the request is answered 201 and the store
  afterwards holds the new transaction row next to the untouched customer row: the row is
  committed without the update of balance and lastTransactionDate.
\<close>

theorem empty_customerId_row_without_update:
  "post_transactions True no_faults
     (tx_body ''t1'' ''TAKE_CREDIT'' 30 ''2024-05-01'' (Some [])) nobody_shop
   = (Inr 201,
      \<lparr>customers = [stored_customer [] ''Nobody'' 0 None],
       transactions = [stored_tx ''t1'' ''TAKE_CREDIT'' 30 ''2024-05-01'' (Some [])],
       reminders = []\<rparr>)"
  by (simp add: exec_defs sample_defs)

text \<open>
  C9. A PAYMENT_RECEIVED whose customerId is the empty string is answered 201 and
  recorded, and the lastTransactionDate of the customer it names is still NULL
  afterwards; the same request naming customer \<open>c1\<close> sets the date.
\<close>

theorem empty_customerId_keeps_date_null:
  "fst (post_transactions True no_faults
          (tx_body ''t7'' ''PAYMENT_RECEIVED'' 40 ''2024-05-02'' (Some [])) nobody_shop) = Inr 201
   \<and> map t_customerId (transactions (snd (post_transactions True no_faults
          (tx_body ''t7'' ''PAYMENT_RECEIVED'' 40 ''2024-05-02'' (Some [])) nobody_shop))) = [Some []]
   \<and> map c_id (customers nobody_shop) = [Some []]
   \<and> map c_lastTransactionDate (customers (snd (post_transactions True no_faults
          (tx_body ''t7'' ''PAYMENT_RECEIVED'' 40 ''2024-05-02'' (Some [])) nobody_shop))) = [None]
   \<and> map c_lastTransactionDate (customers (snd (post_transactions True no_faults
          (tx_body ''t7'' ''PAYMENT_RECEIVED'' 40 ''2024-05-02'' (Some ''c1'')) shop)))
       = [Some ''2024-05-02'']"
  by (simp add: exec_defs sample_defs)

section \<open>Duplicates\<close>

text \<open>
  C4. A create-transaction request whose id is already stored is rejected and the store,
  hence every balance, is unchanged: by the primary-key constraint when the request is
  otherwise complete and the storage works.
\<close>

theorem duplicate_id_rejected:
  assumes "tb_id b = Some i" and "Some i \<in> set (map t_id (transactions s))"
  shows "post_transactions fk io b s =
           (Inl (if f_insert io then SQLITE_IOERR
                 else if tb_type b = None \<or> tb_amount b = None \<or> tb_date b = None
                 then SQLITE_CONSTRAINT_NOTNULL
                 else SQLITE_CONSTRAINT_PRIMARYKEY), s)"
proof (cases "tb_type b = None \<or> tb_amount b = None \<or> tb_date b = None")
  case True
  then show ?thesis by (simp add: post_transactions_absent)
next
  case False
  then obtain ty a d where "tb_type b = Some ty" "tb_amount b = Some a" "tb_date b = Some d"
    by auto
  moreover from assms have "pk_taken (tb_id b) (map t_id (transactions s))"
    by (simp add: pk_taken_def)
  ultimately show ?thesis using False by (simp add: post_transactions_pk)
qed

text \<open>Replaying transaction \<open>t1\<close> leaves the balance at 100.\<close>

theorem duplicate_id_rejected_witness:
  "post_transactions False no_faults
     (tx_body ''t1'' ''GIVE_CREDIT'' 100 ''2024-05-02'' (Some ''c1''))
     \<lparr>customers = [stored_customer ''c1'' ''Alice'' 100 (Some ''2024-05-01'')],
      transactions = [stored_tx ''t1'' ''GIVE_CREDIT'' 100 ''2024-05-01'' (Some ''c1'')],
      reminders = []\<rparr>
   = (Inl SQLITE_CONSTRAINT_PRIMARYKEY,
     \<lparr>customers = [stored_customer ''c1'' ''Alice'' 100 (Some ''2024-05-01'')],
      transactions = [stored_tx ''t1'' ''GIVE_CREDIT'' 100 ''2024-05-01'' (Some ''c1'')],
      reminders = []\<rparr>)"
  using duplicate_id_rejected [of "tx_body ''t1'' ''GIVE_CREDIT'' 100 ''2024-05-02'' (Some ''c1'')"
      "''t1''"
      "\<lparr>customers = [stored_customer ''c1'' ''Alice'' 100 (Some ''2024-05-01'')],
      transactions = [stored_tx ''t1'' ''GIVE_CREDIT'' 100 ''2024-05-01'' (Some ''c1'')],
      reminders = []\<rparr>" False no_faults]
  by (simp add: tx_body_def stored_tx_def no_faults_def)

section \<open>What is validated\<close>

text \<open>
  C5, as the code has it. A create-transaction request whose type or amount is absent
  fails and persists nothing: the INSERT violates a NOT NULL constraint (or the storage
  fails first). The handler checks nothing else about the two fields.
\<close>

theorem absent_type_or_amount_rejected:
  assumes "tb_type b = None \<or> tb_amount b = None"
  shows "post_transactions fk io b s =
           (Inl (if f_insert io then SQLITE_IOERR else SQLITE_CONSTRAINT_NOTNULL), s)"
  using assms by (auto simp: post_transactions_absent)

text \<open>An EXPENSE without an amount is refused.\<close>

theorem absent_type_or_amount_rejected_witness:
  "post_transactions True no_faults
     \<lparr>tb_id = Some ''t1'', tb_type = Some ''EXPENSE'', tb_amount = None,
      tb_date = Some ''2024-05-01'', tb_note = None, tb_customerId = None\<rparr> shop
   = (Inl SQLITE_CONSTRAINT_NOTNULL, shop)"
  using absent_type_or_amount_rejected [of
     "\<lparr>tb_id = Some ''t1'', tb_type = Some ''EXPENSE'', tb_amount = None,
      tb_date = Some ''2024-05-01'', tb_note = None, tb_customerId = None\<rparr>" True no_faults shop]
  by (simp add: no_faults_def)

text \<open>
  C5 as stated does not hold for malformed values: a type outside the five known ones and
  a negative amount are both stored, with answer 201.
\<close>

theorem malformed_type_and_amount_counterexample:
  "post_transactions True no_faults
     (tx_body ''t1'' ''BOGUS'' 5 ''2024-05-01'' None) empty_db
   = (Inr 201,
      \<lparr>customers = [],
       transactions = [stored_tx ''t1'' ''BOGUS'' 5 ''2024-05-01'' None],
       reminders = []\<rparr>)
   \<and> post_transactions True no_faults
     (tx_body ''t2'' ''GIVE_CREDIT'' (- 5) ''2024-05-01'' (Some ''c1'')) shop
   = (Inr 201,
      \<lparr>customers = [stored_customer ''c1'' ''Alice'' (- 5) (Some ''2024-05-01'')],
       transactions = [stored_tx ''t2'' ''GIVE_CREDIT'' (- 5) ''2024-05-01'' (Some ''c1'')],
       reminders = []\<rparr>)"
  by (simp add: exec_defs sample_defs balanceChange_def fl_defs)

text \<open>
  C6, as the code has it. The handler never looks the customer up and has no error of
  its own for an unknown customer. With foreign keys enforced, a create-transaction
  request whose customerId is the id of no stored customer fails and persists nothing,
  and the error is the one of the first check of the INSERT that fails: the storage
  error, else NOT NULL when type, amount or date is absent, else the primary key when
  the id is already stored, else the foreign key.
\<close>

theorem unknown_customer_fails_in_the_store:
  assumes "tb_customerId b = Some k" and "Some k \<notin> set (map c_id (customers s))"
  shows "post_transactions True io b s =
           (Inl (if f_insert io then SQLITE_IOERR
                 else if tb_type b = None \<or> tb_amount b = None \<or> tb_date b = None
                 then SQLITE_CONSTRAINT_NOTNULL
                 else if pk_taken (tb_id b) (map t_id (transactions s))
                 then SQLITE_CONSTRAINT_PRIMARYKEY
                 else SQLITE_CONSTRAINT_FOREIGNKEY), s)"
proof (cases "tb_type b = None \<or> tb_amount b = None \<or> tb_date b = None")
  case True
  then show ?thesis by (simp add: post_transactions_absent)
next
  case False
  then obtain ty a d where
    present: "tb_type b = Some ty" "tb_amount b = Some a" "tb_date b = Some d"
    by auto
  show ?thesis
  proof (cases "pk_taken (tb_id b) (map t_id (transactions s))")
    case True
    with present False show ?thesis by (simp add: post_transactions_pk)
  next
    case nopk: False
    from assms have "fk_violated True (tb_customerId b) s"
      by (simp add: fk_violated_def)
    from post_transactions_fk[OF this nopk present, of io] nopk present show ?thesis
      by simp
  qed
qed

text \<open>A complete request for the unknown customer \<open>ghost\<close>.\<close>

theorem unknown_customer_fails_in_the_store_witness:
  "post_transactions True no_faults
     (tx_body ''t1'' ''GIVE_CREDIT'' 100 ''2024-05-01'' (Some ''ghost'')) shop
   = (Inl SQLITE_CONSTRAINT_FOREIGNKEY, shop)"
  using unknown_customer_fails_in_the_store [of
     "tx_body ''t1'' ''GIVE_CREDIT'' 100 ''2024-05-01'' (Some ''ghost'')" "''ghost''" shop no_faults]
  by (simp add: sample_defs pk_taken_def)

text \<open>
  C6 as stated does not hold: the failure is never a not-found error. For an unknown
  customer the request without a type fails on NOT NULL, the replay of a stored id
  fails on the primary key, and only the otherwise acceptable request fails on the
  foreign key.
\<close>

theorem unknown_customer_counterexample:
  "post_transactions True no_faults
     \<lparr>tb_id = Some ''t1'', tb_type = None, tb_amount = Some 100,
      tb_date = Some ''2024-05-01'', tb_note = None, tb_customerId = Some ''ghost''\<rparr> shop
   = (Inl SQLITE_CONSTRAINT_NOTNULL, shop)
   \<and> post_transactions True no_faults
     (tx_body ''t1'' ''GIVE_CREDIT'' 100 ''2024-05-02'' (Some ''ghost''))
     \<lparr>customers = [stored_customer ''c1'' ''Alice'' 100 (Some ''2024-05-01'')],
      transactions = [stored_tx ''t1'' ''GIVE_CREDIT'' 100 ''2024-05-01'' (Some ''c1'')],
      reminders = []\<rparr>
   = (Inl SQLITE_CONSTRAINT_PRIMARYKEY,
     \<lparr>customers = [stored_customer ''c1'' ''Alice'' 100 (Some ''2024-05-01'')],
      transactions = [stored_tx ''t1'' ''GIVE_CREDIT'' 100 ''2024-05-01'' (Some ''c1'')],
      reminders = []\<rparr>)
   \<and> post_transactions True no_faults
     (tx_body ''t1'' ''GIVE_CREDIT'' 100 ''2024-05-01'' (Some ''ghost'')) shop
   = (Inl SQLITE_CONSTRAINT_FOREIGNKEY, shop)"
  by (simp add: exec_defs sample_defs)

section \<open>The summary\<close>

text \<open>
  C7, as the code has it. When neither of the two SUMs rounds, that is, when every
  running total of the positive balances and of the absolute values of the negative
  balances is a finite binary64 value as it stands, the total receivable minus the total
  payable is the sum of all customers' balances. Whole-number balances whose absolute
  values add up to less than \<open>2 ^ 53\<close> are a case of this.
\<close>

theorem receivable_minus_payable_without_rounding:
  assumes "no_rounding 0 (map c_balance (filter (\<lambda>c. c_balance c > 0) (customers s)))"
    and "no_rounding 0 (map (\<lambda>c. \<bar>c_balance c\<bar>) (filter (\<lambda>c. c_balance c < 0) (customers s)))"
  shows "iGet (get_summary today s) - theyGet (get_summary today s)
           = sum_list (map c_balance (customers s))"
  using assms
  by (simp add: get_summary_def Let_def or0_sql_sum_exact sum_list_split_sign)

text \<open>Balances 60 and -25: receivable 60, payable 25.\<close>

theorem receivable_minus_payable_without_rounding_witness:
  "get_summary ''2024-05-01''
     \<lparr>customers = [stored_customer ''c1'' ''Alice'' 60 None, stored_customer ''c2'' ''Bob'' (- 25) None],
      transactions = [], reminders = []\<rparr>
   = \<lparr>todayExpense = 0, iGet = 60, theyGet = 25\<rparr>
   \<and> sum_list (map c_balance
       (customers \<lparr>customers = [stored_customer ''c1'' ''Alice'' 60 None,
                                stored_customer ''c2'' ''Bob'' (- 25) None],
          transactions = [], reminders = []\<rparr>)) = 60 - 25"
  using receivable_minus_payable_without_rounding [of
     "\<lparr>customers = [stored_customer ''c1'' ''Alice'' 60 None, stored_customer ''c2'' ''Bob'' (- 25) None],
      transactions = [], reminders = []\<rparr>" "''2024-05-01''"]
  by (simp add: get_summary_def or0_def sql_sum_def stored_customer_def fl_defs Let_def)

text \<open>
  C7 as stated does not hold for every population. Three customers are given the
  balances \<open>10^16\<close>, \<open>-10^16\<close> and 1 through the handlers. The receivable total
  \<open>10^16 + 1\<close> is not a binary64 value and is rounded to \<open>10^16\<close>, so receivable minus
  payable is 0, while the balances sum to 1.
\<close>

theorem receivable_minus_payable_counterexample:
  "map c_balance (customers (run True big_ledger empty_db))
     = [10000000000000000, - 10000000000000000, 1]
   \<and> iGet (get_summary ''2024-05-01'' (run True big_ledger empty_db)) = 10000000000000000
   \<and> theyGet (get_summary ''2024-05-01'' (run True big_ledger empty_db)) = 10000000000000000
   \<and> sum_list (map c_balance (customers (run True big_ledger empty_db))) = 1"
proof -
  have run: "run True big_ledger empty_db =
    \<lparr>customers = [stored_customer ''c1'' ''Alice'' 10000000000000000 (Some ''2024-05-01''),
                  stored_customer ''c2'' ''Bob'' (- 10000000000000000) (Some ''2024-05-01''),
                  stored_customer ''c3'' ''Carol'' 1 (Some ''2024-05-01'')],
     transactions = [stored_tx ''t1'' ''GIVE_CREDIT'' 10000000000000000 ''2024-05-01'' (Some ''c1''),
                     stored_tx ''t2'' ''TAKE_CREDIT'' 10000000000000000 ''2024-05-01'' (Some ''c2''),
                     stored_tx ''t3'' ''GIVE_CREDIT'' 1 ''2024-05-01'' (Some ''c3'')],
     reminders = []\<rparr>"
    by (simp add: big_ledger_def exec_defs sample_defs balanceChange_def fl_defs)
  show ?thesis
    unfolding run
    by (simp add: get_summary_def or0_def sql_sum_def stored_customer_def fl_defs Let_def)
qed

text \<open>
  C8. With no customers, the receivable and the payable totals are 0; more generally each
  is 0 when no customer has a balance of its sign; and today's expense is 0 when no
  EXPENSE transaction carries today's date. The summary is a total function into numbers:
  the NULL of an empty \<open>SUM\<close> never reaches the answer.
\<close>

theorem empty_aggregates_are_zero:
  "(customers s = [] \<longrightarrow> iGet (get_summary today s) = 0 \<and> theyGet (get_summary today s) = 0)
   \<and> ((\<forall>c \<in> set (customers s). \<not> c_balance c > 0) \<longrightarrow> iGet (get_summary today s) = 0)
   \<and> ((\<forall>c \<in> set (customers s). \<not> c_balance c < 0) \<longrightarrow> theyGet (get_summary today s) = 0)
   \<and> ((\<forall>t \<in> set (transactions s). \<not> (t_type t = ''EXPENSE'' \<and> t_date t = today))
        \<longrightarrow> todayExpense (get_summary today s) = 0)"
proof -
  have f: "(\<forall>x \<in> set xs. \<not> P x) \<Longrightarrow> filter P xs = []" for P and xs :: "'a list"
    by (induction xs) auto
  show ?thesis
    by (auto simp: get_summary_def Let_def or0_sql_sum_Nil f)
qed

text \<open>The empty store, and a store whose only expense is of another day.\<close>

theorem empty_aggregates_are_zero_witness:
  "get_summary ''2024-05-01'' empty_db = \<lparr>todayExpense = 0, iGet = 0, theyGet = 0\<rparr>
   \<and> todayExpense (get_summary ''2024-05-02''
        \<lparr>customers = [], transactions = [stored_tx ''t1'' ''EXPENSE'' 50 ''2024-05-01'' None],
         reminders = []\<rparr>) = 0"
  using empty_aggregates_are_zero [of empty_db "''2024-05-01''"]
    empty_aggregates_are_zero [of "\<lparr>customers = [],
         transactions = [stored_tx ''t1'' ''EXPENSE'' 50 ''2024-05-01'' None],
         reminders = []\<rparr>" "''2024-05-02''"]
  by (simp add: empty_db_def stored_tx_def get_summary_def or0_sql_sum_Nil)

section \<open>Reminders\<close>

text \<open>
  C10. A reminder is stored with status UPCOMING; requests only ever append to the
  reminders table, so a stored reminder is never changed; hence in every store reached
  from the empty one every reminder has status UPCOMING.
\<close>

theorem reminders_stay_upcoming:
  "(post_reminders fk fail rb s = (Inr n, s') \<longrightarrow>
      (\<exists>r. reminders s' = reminders s @ [r] \<and> r_id r = rb_id rb \<and> r_status r = Some ''UPCOMING''))
   \<and> (\<exists>new. reminders (run fk reqs s) = reminders s @ new)
   \<and> (\<forall>r \<in> set (reminders (run fk reqs empty_db)). r_status r = Some ''UPCOMING'')"
proof -
  have A: "\<exists>r. reminders s' = reminders s @ [r] \<and> r_id r = rb_id rb \<and> r_status r = Some ''UPCOMING''"
    if "post_reminders fk fail rb s = (Inr n, s')"
    using post_reminders_Inr(2)[OF that] by auto
  from run_reminders[of fk reqs s] have B: "\<exists>new. reminders (run fk reqs s) = reminders s @ new"
    by blast
  from run_reminders[of fk reqs empty_db]
  have C: "\<forall>r \<in> set (reminders (run fk reqs empty_db)). r_status r = Some ''UPCOMING''"
    by (auto simp: empty_db_def)
  from A B C show ?thesis by blast
qed

text \<open>A reminder created between two other requests.\<close>

theorem reminders_stay_upcoming_witness:
  "map r_status (reminders (run True
      [PostCustomer False (cust_body ''c1'' ''Alice''),
       PostReminder False \<lparr>rb_id = Some ''r1'', rb_title = Some ''Collect'',
          rb_date = Some ''2024-06-01'', rb_amount = Some 100, rb_type = Some ''COLLECTION'',
          rb_customerId = Some ''c1''\<rparr>,
       PostTransaction no_faults (tx_body ''t1'' ''GIVE_CREDIT'' 100 ''2024-05-01'' (Some ''c1''))]
      empty_db)) = [Some ''UPCOMING'']"
  using reminders_stay_upcoming [of True False _ empty_db 0 empty_db
      "[PostCustomer False (cust_body ''c1'' ''Alice''),
       PostReminder False \<lparr>rb_id = Some ''r1'', rb_title = Some ''Collect'',
          rb_date = Some ''2024-06-01'', rb_amount = Some 100, rb_type = Some ''COLLECTION'',
          rb_customerId = Some ''c1''\<rparr>,
       PostTransaction no_faults (tx_body ''t1'' ''GIVE_CREDIT'' 100 ''2024-05-01'' (Some ''c1''))]"]
  by (simp add: exec_defs sample_defs)

end
